theory Spec2Isabelle
  imports Main "HOL-Library.Word"
begin

section \<open>The offset scanner of scripts/marshal\_extract.py\<close>

text \<open>
  The script reads a file, tries \<^verbatim>\<open>marshal.loads(raw[offset:])\<close> for the offsets
  \<^verbatim>\<open>range(0, min(32, len(raw)))\<close> and writes the first object that loads back with
  \<^verbatim>\<open>marshal.dump\<close>. The model passes the state of the outside world explicitly, makes
  every exception a value, and takes the facilities of the Python runtime that the script
  calls (the \<^verbatim>\<open>marshal\<close> module, the faults of the file system) as a parameter.
\<close>

subsection \<open>Data\<close>

type_synonym byte = "8 word"
type_synonym bytes = "byte list"
type_synonym path = string

text \<open>
  The exception classes the handlers of the script tell apart. A constructor stands for
  the class and its subclasses, as \<^verbatim>\<open>except\<close> matches by \<^verbatim>\<open>isinstance\<close>. All of them
  derive from \<^verbatim>\<open>Exception\<close>, which is what the outer handler catches: \<^verbatim>\<open>open\<close>,
  \<^verbatim>\<open>read\<close>, \<^verbatim>\<open>marshal.loads\<close>, \<^verbatim>\<open>marshal.dump\<close> and \<^verbatim>\<open>print\<close> raise nothing else.
  Interrupts delivered by signals are outside the model. The string is \<^verbatim>\<open>str(e)\<close>.
\<close>

datatype exn_class =
  ValueError | EOFError | TypeError | OSError | MemoryError | SystemError | OtherException

datatype exn = Exn (exn_cls: exn_class) (exn_msg: string)

text \<open>
  What a run does to the outside world, in order: reading the input file, one iteration
  of the loop for an offset, opening the output file for writing, and writing bytes to it.
  The events are recorded when the operation starts, whether it then raises or not.
\<close>

datatype event = EvRead path | EvTry nat | EvOpenW path | EvWrite path bytes

record world =
  files :: "path \<rightharpoonup> bytes"
  stdout :: "string list"
  stderr :: "string list"
  trace :: "event list"

text \<open>
  The runtime: \<^verbatim>\<open>marshal.loads\<close> and the serialisation that \<^verbatim>\<open>marshal.dump\<close> performs
  before it calls \<^verbatim>\<open>write\<close> once, each a fixed function of its argument that returns or
  raises; the exception, if any, with which reading a file that exists fails; the
  exception, if any, with which \<^verbatim>\<open>open(p, 'wb')\<close> fails; and the failure, if any, of
  writing to the open file, which on a file object is an \<^verbatim>\<open>OSError\<close> with its message
  and leaves some bytes in the file; and the exception, if any, with which \<^verbatim>\<open>print\<close> to
  standard output fails (a closed stream raises \<^verbatim>\<open>ValueError\<close>, a broken pipe an
  \<^verbatim>\<open>OSError\<close>): the stream is the same during a run, so it takes every line or fails
  every time. The two prints to standard error are taken not to raise.
\<close>

record 'obj host =
  loads :: "bytes \<Rightarrow> exn + 'obj"
  dumps :: "'obj \<Rightarrow> exn + bytes"
  read_fault :: "path \<Rightarrow> exn option"
  open_wb_fault :: "path \<Rightarrow> exn option"
  write_fault :: "path \<Rightarrow> bytes \<Rightarrow> (string \<times> bytes) option"
  stdout_fault :: "exn option"

subsection \<open>Printing\<close>

fun str_nat :: "nat \<Rightarrow> string" where
  "str_nat n =
     (if n < 10 then [''0123456789'' ! n]
      else str_nat (n div 10) @ [''0123456789'' ! (n mod 10)])"

declare str_nat.simps [simp del]

definition success_line :: "nat \<Rightarrow> string" where
  "success_line offset =
     ''[+] Code object extracted (header_offset='' @ str_nat offset @ '' bytes)''"

definition exhaustion_line :: string where
  "exhaustion_line = ''[-] Failed to extract valid code object''"

definition error_line :: "exn \<Rightarrow> string" where
  "error_line e = ''[-] Error: '' @ exn_msg e"

definition usage_line :: string where
  "usage_line = ''Usage: marshal_extract.py <input.pyc> <output.marshaled>''"

definition print_stdout :: "string \<Rightarrow> world \<Rightarrow> world" where
  "print_stdout s w = w\<lparr>stdout := stdout w @ [s]\<rparr>"

text \<open>\<^verbatim>\<open>print(s)\<close>: the line reaches standard output, or the call raises and prints nothing.\<close>

definition print_out :: "'obj host \<Rightarrow> string \<Rightarrow> world \<Rightarrow> (exn + unit) \<times> world" where
  "print_out h s w =
     (case stdout_fault h of
        Some e \<Rightarrow> (Inl e, w)
      | None \<Rightarrow> (Inr (), print_stdout s w))"

definition print_stderr :: "string \<Rightarrow> world \<Rightarrow> world" where
  "print_stderr s w = w\<lparr>stderr := stderr w @ [s]\<rparr>"

definition log :: "event \<Rightarrow> world \<Rightarrow> world" where
  "log ev w = w\<lparr>trace := trace w @ [ev]\<rparr>"

subsection \<open>File operations\<close>

text \<open>
  \<^verbatim>\<open>str\<close> of the \<^verbatim>\<open>FileNotFoundError\<close> that \<^verbatim>\<open>open\<close> raises for a path that does not
  exist (the path is shown between quotes; the escapes of \<^verbatim>\<open>repr\<close> are not modelled).
\<close>

definition enoent_msg :: "path \<Rightarrow> string" where
  "enoent_msg p = ''[Errno 2] No such file or directory: '' @ [CHR 0x27] @ p @ [CHR 0x27]"

text \<open>\<^verbatim>\<open>with open(pyc_path, 'rb') as f: raw = f.read()\<close>\<close>

definition read_binary :: "'obj host \<Rightarrow> path \<Rightarrow> world \<Rightarrow> (exn + bytes) \<times> world" where
  "read_binary h p w =
     (let w1 = log (EvRead p) w in
      case files w p of
        None \<Rightarrow> (Inl (Exn OSError (enoent_msg p)), w1)
      | Some raw \<Rightarrow>
          (case read_fault h p of
             Some e \<Rightarrow> (Inl e, w1)
           | None \<Rightarrow> (Inr raw, w1)))"

text \<open>
  \<^verbatim>\<open>with open(output_path, 'wb') as out: marshal.dump(code, out)\<close>. Opening creates the
  file or truncates it; \<^verbatim>\<open>marshal.dump\<close> serialises the object and only then writes.
\<close>

definition write_output :: "'obj host \<Rightarrow> path \<Rightarrow> 'obj \<Rightarrow> world \<Rightarrow> (exn + unit) \<times> world" where
  "write_output h p code w =
     (let w1 = log (EvOpenW p) w in
      case open_wb_fault h p of
        Some e \<Rightarrow> (Inl e, w1)
      | None \<Rightarrow>
          (let w2 = w1\<lparr>files := (files w1)(p \<mapsto> [])\<rparr> in
           case dumps h code of
             Inl e \<Rightarrow> (Inl e, w2)
           | Inr bs \<Rightarrow>
               (let w3 = log (EvWrite p bs) w2 in
                case write_fault h p bs of
                  Some (m, part) \<Rightarrow> (Inl (Exn OSError m), w3\<lparr>files := (files w3)(p \<mapsto> part)\<rparr>)
                | None \<Rightarrow> (Inr (), w3\<lparr>files := (files w3)(p \<mapsto> bs)\<rparr>))))"

subsection \<open>The scan\<close>

text \<open>\<^verbatim>\<open>except (ValueError, EOFError, TypeError): continue\<close>\<close>

definition recoverable :: "exn \<Rightarrow> bool" where
  "recoverable e = (exn_cls e = ValueError \<or> exn_cls e = EOFError \<or> exn_cls e = TypeError)"

text \<open>
  The body of the inner \<^verbatim>\<open>try\<close> for one offset: it returns 0 or raises. The three
  statements that can raise are inside the \<^verbatim>\<open>try\<close>: \<^verbatim>\<open>marshal.loads\<close>, the \<^verbatim>\<open>with\<close>
  block that writes the output, and the \<^verbatim>\<open>print\<close> of the success line.
\<close>

definition attempt :: "'obj host \<Rightarrow> bytes \<Rightarrow> path \<Rightarrow> nat \<Rightarrow> world \<Rightarrow> (exn + int) \<times> world" where
  "attempt h raw output_path offset w =
     (let w1 = log (EvTry offset) w in
      case loads h (drop offset raw) of
        Inl e \<Rightarrow> (Inl e, w1)
      | Inr code \<Rightarrow>
          (case write_output h output_path code w1 of
             (Inl e, w2) \<Rightarrow> (Inl e, w2)
           | (Inr u, w2) \<Rightarrow>
               (case print_out h (success_line offset) w2 of
                  (Inl e, w3) \<Rightarrow> (Inl e, w3)
                | (Inr u', w3) \<Rightarrow> (Inr 0, w3))))"

text \<open>
  The \<^verbatim>\<open>for\<close> loop over the offsets that are left. \<open>Inr (Some r)\<close>: the body returned
  \<open>r\<close>; \<open>Inr None\<close>: the loop ran to its end; \<open>Inl e\<close>: the body raised an exception that
  the inner handler does not catch.
\<close>

fun for_offsets :: "'obj host \<Rightarrow> bytes \<Rightarrow> path \<Rightarrow> nat list \<Rightarrow> world \<Rightarrow> (exn + int option) \<times> world" where
  "for_offsets h raw output_path [] w = (Inr None, w)"
| "for_offsets h raw output_path (offset # rest) w =
     (case attempt h raw output_path offset w of
        (Inr r, w') \<Rightarrow> (Inr (Some r), w')
      | (Inl e, w') \<Rightarrow>
          (if recoverable e then for_offsets h raw output_path rest w' else (Inl e, w')))"

text \<open>\<^verbatim>\<open>range(0, min(32, len(raw)))\<close>\<close>

definition offsets :: "bytes \<Rightarrow> nat list" where
  "offsets raw = [0 ..< min 32 (length raw)]"

text \<open>What follows the loop inside the outer \<^verbatim>\<open>try\<close>.\<close>

definition after_loop :: "(exn + int option) \<times> world \<Rightarrow> (exn + int) \<times> world" where
  "after_loop lw =
     (case lw of
        (Inl e, w) \<Rightarrow> (Inl e, w)
      | (Inr (Some r), w) \<Rightarrow> (Inr r, w)
      | (Inr None, w) \<Rightarrow> (Inr 1, print_stderr exhaustion_line w))"

text \<open>\<^verbatim>\<open>except Exception as e: print(f'[-] Error: {e}', file=sys.stderr); return 1\<close>\<close>

definition handler :: "(exn + int) \<times> world \<Rightarrow> int \<times> world" where
  "handler rw =
     (case rw of
        (Inr r, w) \<Rightarrow> (r, w)
      | (Inl e, w) \<Rightarrow> (1, print_stderr (error_line e) w))"

definition extract_code_object :: "'obj host \<Rightarrow> path \<Rightarrow> path \<Rightarrow> world \<Rightarrow> int \<times> world" where
  "extract_code_object h pyc_path output_path w =
     handler
       (case read_binary h pyc_path w of
          (Inl e, w1) \<Rightarrow> (Inl e, w1)
        | (Inr raw, w1) \<Rightarrow> after_loop (for_offsets h raw output_path (offsets raw) w1))"

text \<open>
  The \<^verbatim>\<open>__main__\<close> block: the exit status of the process and the world it leaves.
\<close>

definition main_prog :: "'obj host \<Rightarrow> string list \<Rightarrow> world \<Rightarrow> int \<times> world" where
  "main_prog h argv w =
     (if length argv \<noteq> 3 then (1, print_stderr usage_line w)
      else extract_code_object h (argv ! 1) (argv ! 2) w)"

subsection \<open>Reading the record of a run\<close>

text \<open>The offsets of the loop iterations in a list of events, and the number of writes.\<close>

fun tried :: "event list \<Rightarrow> nat list" where
  "tried [] = []"
| "tried (EvTry k # evs) = k # tried evs"
| "tried (ev # evs) = tried evs"

fun writes :: "event list \<Rightarrow> nat" where
  "writes [] = 0"
| "writes (EvWrite p bs # evs) = Suc (writes evs)"
| "writes (ev # evs) = writes evs"

subsection \<open>A sample runtime\<close>

text \<open>
  A small runtime for concrete runs: the part of CPython 3.11's \<^verbatim>\<open>marshal\<close> that reads the
  type codes \<^verbatim>\<open>N\<close>, \<^verbatim>\<open>T\<close>, \<^verbatim>\<open>F\<close> (the objects \<^verbatim>\<open>None\<close>, \<^verbatim>\<open>True\<close>, \<^verbatim>\<open>False\<close>), \<^verbatim>\<open>0\<close>
  (the null object) and \<^verbatim>\<open>c\<close> (a code object), with the exceptions and messages of that
  version. Every other byte is read as no type code, which is what \<^verbatim>\<open>marshal\<close> does for
  the byte 0 used below; the other type codes of \<^verbatim>\<open>marshal\<close> are not modelled and do not
  occur in the inputs of this theory.

  A code object is five 32-bit integers, eight objects, one more integer and two objects.
  With fields that are \<^verbatim>\<open>None\<close>, \<^verbatim>\<open>True\<close> or \<^verbatim>\<open>False\<close> its validation fails (the bytecode
  field is no bytes object) and \<^verbatim>\<open>marshal.loads\<close> raises \<^verbatim>\<open>SystemError\<close>, so in this part of
  the format reading a code object always raises: \<open>r_code\<close> gives the exception, for a
  code object at nesting depth \<open>depth\<close>, from the bytes after its type code.
\<close>

datatype pyobj = PyNone | PyTrue | PyFalse

fun r_code :: "nat \<Rightarrow> bytes \<Rightarrow> exn"
  and r_fields :: "nat \<Rightarrow> nat \<Rightarrow> bool \<Rightarrow> bytes \<Rightarrow> exn" where
  "r_code depth bs =
     (if length bs < 20 then Exn EOFError ''marshal data too short''
      else r_fields depth 8 True (drop 20 bs))"
| "r_fields depth n first bs =
     (if n = 0 then
        (if first then
           (if length bs < 4 then Exn EOFError ''marshal data too short''
            else r_fields depth 2 False (drop 4 bs))
         else Exn SystemError ''Objects/codeobject.c:250: bad argument to internal function'')
      else
        (case bs of
           [] \<Rightarrow> Exn EOFError ''EOF read where object expected''
         | t # rest \<Rightarrow>
             if 2000 < depth + 1 then Exn ValueError ''recursion limit exceeded''
             else if t = 0x4E \<or> t = 0x54 \<or> t = 0x46 then r_fields depth (n - 1) first rest
             else if t = 0x30 then Exn TypeError ''NULL object in marshal data for code object''
             else if t = 0x63 then r_code (depth + 1) rest
             else Exn ValueError ''bad marshal data (unknown type code)''))"

declare r_code.simps [simp del] r_fields.simps [simp del]

definition sample_loads :: "bytes \<Rightarrow> exn + pyobj" where
  "sample_loads bs =
     (case bs of
        [] \<Rightarrow> Inl (Exn EOFError ''EOF read where object expected'')
      | t # rest \<Rightarrow>
          if t = 0x4E then Inr PyNone
          else if t = 0x54 then Inr PyTrue
          else if t = 0x46 then Inr PyFalse
          else if t = 0x30 then Inl (Exn TypeError ''NULL object in marshal data for object'')
          else if t = 0x63 then Inl (r_code 1 rest)
          else Inl (Exn ValueError ''bad marshal data (unknown type code)''))"

definition sample_dumps :: "pyobj \<Rightarrow> exn + bytes" where
  "sample_dumps x = Inr (case x of PyNone \<Rightarrow> [0x4E] | PyTrue \<Rightarrow> [0x54] | PyFalse \<Rightarrow> [0x46])"

text \<open>The runtime on a machine where every file operation and every print succeeds.\<close>

definition sample_host :: "pyobj host" where
  "sample_host = \<lparr>loads = sample_loads, dumps = sample_dumps, read_fault = (\<lambda>p. None),
     open_wb_fault = (\<lambda>p. None), write_fault = (\<lambda>p bs. None), stdout_fault = None\<rparr>"

text \<open>
  The same runtime where the output path cannot be opened for writing, where the disk is
  full, and where standard output is closed.
\<close>

definition eacces_msg :: "path \<Rightarrow> string" where
  "eacces_msg p = ''[Errno 13] Permission denied: '' @ [CHR 0x27] @ p @ [CHR 0x27]"

definition readonly_host :: "pyobj host" where
  "readonly_host = sample_host\<lparr>open_wb_fault := (\<lambda>p. Some (Exn OSError (eacces_msg p)))\<rparr>"

definition full_disk_host :: "pyobj host" where
  "full_disk_host =
     sample_host\<lparr>write_fault := (\<lambda>p bs. Some (''[Errno 28] No space left on device'', []))\<rparr>"

definition closed_stdout_host :: "pyobj host" where
  "closed_stdout_host =
     sample_host\<lparr>stdout_fault := Some (Exn ValueError ''I/O operation on closed file.'')\<rparr>"

definition sample_world :: "bytes \<Rightarrow> world" where
  "sample_world raw = \<lparr>files = [''in.pyc'' \<mapsto> raw], stdout = [], stderr = [], trace = []\<rparr>"

text \<open>
  A runtime whose serialisation refuses one object, for runs in which \<^verbatim>\<open>marshal.dump\<close>
  raises after the output file was opened; inputs, the worlds their runs end in, and a
  second world that holds the same bytes under another name.
\<close>

definition strict_host :: "pyobj host" where
  "strict_host = sample_host\<lparr>dumps :=
     (\<lambda>x. if x = PyFalse then Inl (Exn ValueError ''unmarshallable object'') else sample_dumps x)\<rparr>"

definition sample_raw :: bytes where
  "sample_raw = [0, 0x30, 0x54, 0x4E]"

definition sample_final :: world where
  "sample_final =
     \<lparr>files = [''in.pyc'' \<mapsto> [0, 0x30, 0x54, 0x4E], ''out.bin'' \<mapsto> [0x54]],
      stdout = [''[+] Code object extracted (header_offset=2 bytes)''],
      stderr = [],
      trace = [EvRead ''in.pyc'', EvTry 0, EvTry 1, EvTry 2, EvOpenW ''out.bin'',
               EvWrite ''out.bin'' [0x54]]\<rparr>"

definition short_raw :: bytes where
  "short_raw = [0, 0x30]"

definition short_final :: world where
  "short_final =
     \<lparr>files = [''in.pyc'' \<mapsto> [0, 0x30]], stdout = [],
      stderr = [''[-] Failed to extract valid code object''],
      trace = [EvRead ''in.pyc'', EvTry 0, EvTry 1]\<rparr>"

text \<open>
  A code object with \<^verbatim>\<open>None\<close> in every field, as bytes: the type code, twenty bytes of
  integers, eight objects, four bytes, two objects.
\<close>

definition bad_code :: bytes where
  "bad_code =
     [0x63, 0, 0, 0, 0, 0, 0, 0, 0, 0, 0, 0, 0, 0, 0, 0, 0, 0, 0, 0, 0,
      0x4E, 0x4E, 0x4E, 0x4E, 0x4E, 0x4E, 0x4E, 0x4E, 0, 0, 0, 0, 0x4E, 0x4E]"

text \<open>The same after eleven zero bytes: its objects start at offset 32.\<close>

definition padded_code :: bytes where
  "padded_code =
     [0, 0, 0, 0, 0, 0, 0, 0, 0, 0, 0,
      0x63, 0, 0, 0, 0, 0, 0, 0, 0, 0, 0, 0, 0, 0, 0, 0, 0, 0, 0, 0, 0,
      0x4E, 0x4E, 0x4E, 0x4E, 0x4E, 0x4E, 0x4E, 0x4E, 0, 0, 0, 0, 0x4E, 0x4E]"

definition code_error :: exn where
  "code_error = Exn SystemError ''Objects/codeobject.c:250: bad argument to internal function''"


subsection \<open>The contract of the runtime, and worlds as increments\<close>

text \<open>
  What the round trip through the output file needs of \<^verbatim>\<open>marshal\<close>: loading what was
  dumped gives the object back.
\<close>

definition marshal_roundtrip :: "'obj host \<Rightarrow> bool" where
  "marshal_roundtrip h = (\<forall>x bs. dumps h x = Inr bs \<longrightarrow> loads h bs = Inr x)"



subsection \<open>Comparing two runs\<close>




section \<open>Properties\<close>

subsection \<open>Auxiliary facts\<close>

lemmas run_defs = extract_code_object_def handler_def after_loop_def read_binary_def offsets_def
  attempt_def write_output_def print_out_def log_def print_stdout_def print_stderr_def
  recoverable_def error_line_def

lemmas sample_defs = sample_world_def sample_host_def sample_loads_def sample_dumps_def
  readonly_host_def full_disk_host_def closed_stdout_host_def strict_host_def

lemma tried_append: "tried (xs @ ys) = tried xs @ tried ys"
  by (induction xs rule: tried.induct) simp_all

lemma tried_map_EvTry: "tried (map EvTry xs) = xs"
  by (induction xs) simp_all

lemma writes_append: "writes (xs @ ys) = writes xs + writes ys"
  by (induction xs rule: writes.induct) simp_all

lemma upt_split_le: "k \<le> n \<Longrightarrow> [0..<n] = [0..<k] @ [k..<n]"
  using upt_add_eq_append[of 0 k "n - k"] by simp

lemma upt_head: "k < n \<Longrightarrow> [k..<n] = k # [Suc k..<n]"
  by (simp add: upt_conv_Cons)

lemma error_line_not_exhaustion: "error_line e \<noteq> exhaustion_line"
  by (simp add: error_line_def exhaustion_line_def)

lemma read_binary_ok:
  "files w inp = Some raw \<Longrightarrow> read_fault h inp = None \<Longrightarrow>
   read_binary h inp w = (Inr raw, w\<lparr>trace := trace w @ [EvRead inp]\<rparr>)"
  by (simp add: read_binary_def log_def)

lemma read_binary_Inr:
  assumes "read_binary h inp w = (Inr raw, w1)"
  shows "files w inp = Some raw \<and> read_fault h inp = None"
  using assms by (auto simp: read_binary_def Let_def split: option.splits)

lemma extract_read_ok:
  "files w inp = Some raw \<Longrightarrow> read_fault h inp = None \<Longrightarrow>
   extract_code_object h inp out w =
     handler (after_loop (for_offsets h raw out (offsets raw) (w\<lparr>trace := trace w @ [EvRead inp]\<rparr>)))"
  by (simp add: extract_code_object_def read_binary_ok)

lemma extract_read_fails:
  assumes "read_binary h inp w = (Inl e, w1)"
  shows "extract_code_object h inp out w =
     (1, w\<lparr>stderr := stderr w @ [error_line e], trace := trace w @ [EvRead inp]\<rparr>)"
  using assms
  by (auto simp: extract_code_object_def read_binary_def handler_def print_stderr_def log_def
      Let_def split: option.splits)

lemma take_offsets: "m \<le> length (offsets raw) \<Longrightarrow> take m (offsets raw) = [0..<m]"
  by (simp add: offsets_def take_upt)

text \<open>Offsets at which \<^verbatim>\<open>marshal.loads\<close> raises one of the three classes are passed over.\<close>

lemma for_offsets_skip:
  "\<forall>j\<in>set xs. \<exists>e. loads h (drop j raw) = Inl e \<and> recoverable e \<Longrightarrow>
   for_offsets h raw out (xs @ ys) w = for_offsets h raw out ys (w\<lparr>trace := trace w @ map EvTry xs\<rparr>)"
  by (induction xs arbitrary: w) (auto simp: attempt_def log_def)

lemma extract_skip:
  assumes "files w inp = Some raw" "read_fault h inp = None"
    and "k \<le> min 32 (length raw)"
    and "\<forall>j<k. \<exists>e. loads h (drop j raw) = Inl e \<and> recoverable e"
  shows "extract_code_object h inp out w =
     handler (after_loop (for_offsets h raw out [k..<min 32 (length raw)]
        (w\<lparr>trace := trace w @ EvRead inp # map EvTry [0..<k]\<rparr>)))"
proof -
  have "[0..<min 32 (length raw)] = [0..<k] @ [k..<min 32 (length raw)]"
    using assms(3) by (rule upt_split_le)
  then show ?thesis
    using for_offsets_skip[of "[0..<k]" h raw out "[k..<min 32 (length raw)]"] assms
    by (simp add: extract_read_ok offsets_def)
qed

lemma for_offsets_no_success:
  "\<forall>j\<in>set xs. \<exists>e. loads h (drop j raw) = Inl e \<Longrightarrow>
   \<exists>m\<le>length xs. \<exists>r. for_offsets h raw out xs w = (r, w\<lparr>trace := trace w @ map EvTry (take m xs)\<rparr>)
      \<and> (\<forall>s. r \<noteq> Inr (Some s))
      \<and> (r = Inr None \<longrightarrow> m = length xs)
      \<and> (\<forall>e. r = Inl e \<longrightarrow> \<not> recoverable e)"
proof (induction xs arbitrary: w)
  case Nil
  then show ?case by simp
next
  case (Cons k xs)
  from Cons.prems obtain e where e: "loads h (drop k raw) = Inl e" by auto
  let ?w1 = "w\<lparr>trace := trace w @ [EvTry k]\<rparr>"
  show ?case
  proof (cases "recoverable e")
    case True
    from Cons.prems have "\<forall>j\<in>set xs. \<exists>e. loads h (drop j raw) = Inl e" by simp
    from Cons.IH[OF this, of ?w1] obtain m r where
      m: "m \<le> length xs" and
      r: "for_offsets h raw out xs ?w1 = (r, ?w1\<lparr>trace := trace ?w1 @ map EvTry (take m xs)\<rparr>)"
         "\<forall>s. r \<noteq> Inr (Some s)" "r = Inr None \<longrightarrow> m = length xs"
         "\<forall>e. r = Inl e \<longrightarrow> \<not> recoverable e"
      by blast
    show ?thesis
      apply (rule exI[of _ "Suc m"])
      using m r e True by (simp add: attempt_def log_def)
  next
    case False
    show ?thesis
      apply (rule exI[of _ "Suc 0"])
      using e False by (simp add: attempt_def log_def)
  qed
qed

text \<open>What one iteration, and then the loop, can do to the world.\<close>

lemma attempt_raise_prints_nothing:
  "attempt h raw out k w = (Inl e, w') \<Longrightarrow> stdout w' = stdout w \<and> stderr w' = stderr w"
  by (auto simp: attempt_def write_output_def print_out_def log_def print_stdout_def Let_def
      split: sum.splits option.splits prod.splits)

lemma attempt_shape:
  assumes "attempt h raw out k w = (r, w')"
  shows "\<exists>evs. trace w' = trace w @ EvTry k # evs \<and> tried evs = [] \<and> stderr w' = stderr w
     \<and> writes evs \<le> 1
     \<and> (case r of
           Inr s \<Rightarrow> s = 0 \<and> writes evs = 1 \<and> stdout_fault h = None
                     \<and> stdout w' = stdout w @ [success_line k]
         | Inl e \<Rightarrow> stdout w' = stdout w
                     \<and> (recoverable e \<and> stdout_fault h \<noteq> Some e \<longrightarrow> writes evs = 0))"
  using assms
  by (auto simp: attempt_def write_output_def print_out_def log_def print_stdout_def Let_def
      recoverable_def split: sum.splits option.splits prod.splits)

lemma for_offsets_shape:
  assumes "for_offsets h raw out xs w = (r, w')"
  shows "\<exists>evs m. trace w' = trace w @ evs \<and> m \<le> length xs \<and> tried evs = take m xs
     \<and> stderr w' = stderr w
     \<and> (case r of
           Inr (Some s) \<Rightarrow> s = 0 \<and> stdout_fault h = None
                     \<and> (\<exists>k\<in>set xs. stdout w' = stdout w @ [success_line k])
         | Inr None \<Rightarrow> m = length xs \<and> stdout w' = stdout w
         | Inl e \<Rightarrow> stdout w' = stdout w)
     \<and> ((\<forall>e. stdout_fault h = Some e \<longrightarrow> \<not> recoverable e) \<longrightarrow>
           writes evs \<le> 1
           \<and> (case r of Inr (Some s) \<Rightarrow> writes evs = 1 | Inr None \<Rightarrow> writes evs = 0 | Inl e \<Rightarrow> True))"
  using assms
proof (induction xs arbitrary: w)
  case Nil
  then show ?case by auto
next
  case (Cons k xs)
  obtain ra wa where a: "attempt h raw out k w = (ra, wa)" by (cases "attempt h raw out k w")
  from attempt_shape[OF a] obtain eva where eva:
    "trace wa = trace w @ EvTry k # eva" "tried eva = []" "stderr wa = stderr w"
    "writes eva \<le> 1"
    "case ra of
           Inr s \<Rightarrow> s = 0 \<and> writes eva = 1 \<and> stdout_fault h = None
                     \<and> stdout wa = stdout w @ [success_line k]
         | Inl e \<Rightarrow> stdout wa = stdout w
                     \<and> (recoverable e \<and> stdout_fault h \<noteq> Some e \<longrightarrow> writes eva = 0)"
    by blast
  show ?case
  proof (cases ra)
    case (Inr s)
    with Cons.prems a have "r = Inr (Some s)" "w' = wa" by simp_all
    with eva Inr show ?thesis
      by (intro exI[of _ "EvTry k # eva"] exI[of _ "Suc 0"]) simp
  next
    case (Inl e)
    show ?thesis
    proof (cases "recoverable e")
      case False
      with Cons.prems a Inl have "r = Inl e" "w' = wa" by simp_all
      with eva Inl show ?thesis
        by (intro exI[of _ "EvTry k # eva"] exI[of _ "Suc 0"]) simp
    next
      case True
      with Cons.prems a Inl have "for_offsets h raw out xs wa = (r, w')" by simp
      from Cons.IH[OF this] obtain evs m where evs:
        "trace w' = trace wa @ evs" "m \<le> length xs" "tried evs = take m xs" "stderr w' = stderr wa"
        "case r of
           Inr (Some s) \<Rightarrow> s = 0 \<and> stdout_fault h = None
                     \<and> (\<exists>k\<in>set xs. stdout w' = stdout wa @ [success_line k])
         | Inr None \<Rightarrow> m = length xs \<and> stdout w' = stdout wa
         | Inl e \<Rightarrow> stdout w' = stdout wa"
        "(\<forall>e. stdout_fault h = Some e \<longrightarrow> \<not> recoverable e) \<longrightarrow>
           writes evs \<le> 1
           \<and> (case r of Inr (Some s) \<Rightarrow> writes evs = 1 | Inr None \<Rightarrow> writes evs = 0 | Inl e \<Rightarrow> True)"
        by blast
      from eva Inl have wa: "stdout wa = stdout w" by simp
      have w0: "writes eva = 0" if "\<forall>e. stdout_fault h = Some e \<longrightarrow> \<not> recoverable e"
        using eva(5) Inl True that by auto
      show ?thesis
        using evs eva(1-3) wa w0
        by (intro exI[of _ "EvTry k # eva @ evs"] exI[of _ "Suc m"])
           (auto simp: tried_append writes_append split: sum.splits option.splits)
    qed
  qed
qed

lemma for_offsets_success:
  assumes "for_offsets h raw out xs w = (Inr (Some s), w')"
  shows "\<exists>k\<in>set xs. \<exists>code bs. loads h (drop k raw) = Inr code \<and> dumps h code = Inr bs
     \<and> files w' out = Some bs \<and> stdout w' = stdout w @ [success_line k] \<and> s = 0"
  using assms
proof (induction xs arbitrary: w)
  case Nil
  then show ?case by simp
next
  case (Cons k xs)
  obtain ra wa where a: "attempt h raw out k w = (ra, wa)" by (cases "attempt h raw out k w")
  show ?case
  proof (cases ra)
    case (Inr s')
    with Cons.prems a have "s' = s" "w' = wa" by simp_all
    with a Inr have "\<exists>code bs. loads h (drop k raw) = Inr code \<and> dumps h code = Inr bs
     \<and> files w' out = Some bs \<and> stdout w' = stdout w @ [success_line k] \<and> s = 0"
      by (auto simp: attempt_def write_output_def print_out_def log_def print_stdout_def Let_def
          split: sum.splits option.splits prod.splits)
    then show ?thesis by simp
  next
    case (Inl e)
    with Cons.prems a have rec: "recoverable e" and "for_offsets h raw out xs wa = (Inr (Some s), w')"
      by (simp_all split: if_splits)
    from Cons.IH[OF this(2)] obtain k' code bs where
      "k' \<in> set xs" "loads h (drop k' raw) = Inr code" "dumps h code = Inr bs"
      "files w' out = Some bs" "stdout w' = stdout wa @ [success_line k']" "s = 0"
      by blast
    moreover have "stdout wa = stdout w"
      using attempt_raise_prints_nothing a Inl by blast
    ultimately show ?thesis by auto
  qed
qed



lemma extract_status_0:
  assumes "extract_code_object h inp out w = (0, w')"
  shows "\<exists>raw. files w inp = Some raw \<and> read_fault h inp = None
     \<and> for_offsets h raw out (offsets raw) (w\<lparr>trace := trace w @ [EvRead inp]\<rparr>) = (Inr (Some 0), w')"
proof -
  obtain rr w1 where rb: "read_binary h inp w = (rr, w1)" by (cases "read_binary h inp w")
  show ?thesis
  proof (cases rr)
    case (Inl e)
    from extract_read_fails[OF rb[unfolded Inl], of out] assms show ?thesis by simp
  next
    case (Inr raw)
    let ?w0 = "w\<lparr>trace := trace w @ [EvRead inp]\<rparr>"
    from read_binary_Inr[OF rb[unfolded Inr]]
    have rd: "files w inp = Some raw" "read_fault h inp = None" by simp_all
    obtain r wl where lp: "for_offsets h raw out (offsets raw) ?w0 = (r, wl)"
      by (cases "for_offsets h raw out (offsets raw) ?w0")
    from assms have "handler (after_loop (r, wl)) = (0, w')"
      by (simp add: extract_read_ok[OF rd] lp)
    then have "r = Inr (Some 0) \<and> wl = w'"
      by (auto simp: after_loop_def handler_def split: sum.splits option.splits)
    with lp rd show ?thesis by simp
  qed
qed







text \<open>The sample runtime and its run.\<close>

lemma sample_roundtrip: "marshal_roundtrip sample_host"
  unfolding marshal_roundtrip_def
proof (intro allI impI)
  fix x bs
  assume "dumps sample_host x = Inr bs"
  then show "loads sample_host bs = Inr x"
    by (cases x) (auto simp: sample_host_def sample_dumps_def sample_loads_def)
qed

lemma sample_run:
  "extract_code_object sample_host ''in.pyc'' ''out.bin'' (sample_world sample_raw) = (0, sample_final)"
  by (simp add: run_defs sample_defs upt_rec success_line_def str_nat.simps sample_raw_def
      sample_final_def)

lemma short_run:
  "extract_code_object sample_host ''in.pyc'' ''out.bin'' (sample_world short_raw) = (1, short_final)"
  by (simp add: run_defs sample_defs upt_rec exhaustion_line_def short_raw_def short_final_def)

lemma sample_read:
  "files (sample_world raw) ''in.pyc'' = Some raw" "read_fault sample_host ''in.pyc'' = None"
  by (simp_all add: sample_world_def sample_host_def)


text \<open>The sample runtime on the code object.\<close>

lemma length_bad_code: "length bad_code = 35"
  by (simp add: bad_code_def)

lemma length_padded_code: "length padded_code = 46"
  by (simp add: padded_code_def)

lemma loads_bad_code: "sample_loads bad_code = Inl code_error"
  unfolding bad_code_def code_error_def by code_simp

lemma loads_padded_code_11: "sample_loads (drop 11 padded_code) = Inl code_error"
  unfolding padded_code_def code_error_def by code_simp

lemma padded_code_never_loads:
  "list_all (\<lambda>j. isl (sample_loads (drop j padded_code))) [0..<32]"
  unfolding padded_code_def by code_simp

lemma bad_code_first_loads:
  "list_all (\<lambda>j. isl (sample_loads (drop j bad_code))) [0..<21]"
  "sample_loads (drop 21 bad_code) = Inr PyNone"
  unfolding bad_code_def by code_simp+

lemma all_below_recoverable:
  "list_all (\<lambda>j. case f j of Inl e \<Rightarrow> recoverable e | Inr x \<Rightarrow> False) [0..<k] \<Longrightarrow>
   \<forall>j<k. \<exists>e. f j = Inl e \<and> recoverable e"
proof (intro allI impI)
  fix j assume "list_all (\<lambda>j. case f j of Inl e \<Rightarrow> recoverable e | Inr x \<Rightarrow> False) [0..<k]"
    and "j < k"
  then have "case f j of Inl e \<Rightarrow> recoverable e | Inr x \<Rightarrow> False"
    by (simp add: list_all_iff)
  then show "\<exists>e. f j = Inl e \<and> recoverable e"
    by (cases "f j") simp_all
qed

lemma padded_code_low:
  "list_all (\<lambda>j. case sample_loads (drop j padded_code) of Inl e \<Rightarrow> recoverable e | Inr x \<Rightarrow> False)
     [0..<11]"
  unfolding padded_code_def by code_simp

text \<open>
The loop over a list that is split in two, and what comes before the iteration for an offset.
\<close>

lemma for_offsets_append:
  "for_offsets h raw out (xs @ ys) w =
     (case for_offsets h raw out xs w of
        (Inr None, w1) \<Rightarrow> for_offsets h raw out ys w1
      | (Inr (Some s), w1) \<Rightarrow> (Inr (Some s), w1)
      | (Inl e, w1) \<Rightarrow> (Inl e, w1))"
  by (induction xs arbitrary: w) (auto split: prod.splits sum.splits option.splits)

lemma finish_trace: "trace (snd (handler (after_loop (r, w)))) = trace w"
  by (simp add: after_loop_def handler_def print_stderr_def split: sum.splits option.splits)

lemma for_offsets_Cons_trace:
  assumes "for_offsets h raw out (k # rest) w = (r, w')"
  shows "\<exists>more. trace w' = trace w @ EvTry k # more"
proof -
  obtain ra wa where a: "attempt h raw out k w = (ra, wa)" by (cases "attempt h raw out k w")
  from attempt_shape[OF a] obtain eva where eva: "trace wa = trace w @ EvTry k # eva" by blast
  show ?thesis
  proof (cases "\<exists>e. ra = Inl e \<and> recoverable e")
    case True
    with assms a have "for_offsets h raw out rest wa = (r, w')" by auto
    from for_offsets_shape[OF this] obtain evs where "trace w' = trace wa @ evs" by blast
    with eva show ?thesis by simp
  next
    case False
    with assms a have "w' = wa" by (cases ra) (auto split: if_splits)
    with eva show ?thesis by simp
  qed
qed

lemma takeWhile_tries:
  "m \<le> k \<Longrightarrow> takeWhile (\<lambda>ev. ev \<noteq> EvTry k) (map EvTry [0..<m] @ rest) =
     map EvTry [0..<m] @ takeWhile (\<lambda>ev. ev \<noteq> EvTry k) rest"
  by (rule takeWhile_append2) auto

lemma extract_no_write_below:
  assumes rd: "files w inp = Some raw" "read_fault h inp = None"
    and k: "k < min 32 (length raw)"
    and smallest: "\<forall>j<k. \<exists>e. loads h (drop j raw) = Inl e"
    and run: "extract_code_object h inp out w = (status, w')"
  shows "\<exists>evs m. trace w' = trace w @ EvRead inp # evs \<and> m \<le> k
            \<and> takeWhile (\<lambda>ev. ev \<noteq> EvTry k) evs = map EvTry [0..<m]"
proof -
  let ?n = "min 32 (length raw)"
  let ?w0 = "w\<lparr>trace := trace w @ [EvRead inp]\<rparr>"
  have split: "offsets raw = [0..<k] @ k # [Suc k..<?n]"
    using k upt_split_le[of k ?n] by (simp add: offsets_def upt_head)
  from smallest have "\<forall>j\<in>set [0..<k]. \<exists>e. loads h (drop j raw) = Inl e" by simp
  from for_offsets_no_success[OF this, of out ?w0] obtain m r1 where
    m0: "m \<le> length [0..<k]" and
    r1: "for_offsets h raw out [0..<k] ?w0 = (r1, ?w0\<lparr>trace := trace ?w0 @ map EvTry (take m [0..<k])\<rparr>)"
        "\<forall>s. r1 \<noteq> Inr (Some s)" "r1 = Inr None \<longrightarrow> m = length [0..<k]"
    by blast
  have m: "m \<le> k" using m0 by simp
  have tk: "take m [0..<k] = [0..<m]" using m by (simp add: take_upt)
  let ?w1 = "?w0\<lparr>trace := trace ?w0 @ map EvTry [0..<m]\<rparr>"
  have tr: "trace w' = trace (snd (for_offsets h raw out (offsets raw) ?w0))"
    using run finish_trace[of "fst (for_offsets h raw out (offsets raw) ?w0)"
        "snd (for_offsets h raw out (offsets raw) ?w0)"]
    by (simp add: extract_read_ok[OF rd])
  show ?thesis
  proof (cases r1)
    case (Inl e)
    with r1(1) have "for_offsets h raw out (offsets raw) ?w0 = (Inl e, ?w1)"
      by (simp add: split for_offsets_append tk)
    with tr have "trace w' = trace w @ EvRead inp # map EvTry [0..<m]" by simp
    moreover have "takeWhile (\<lambda>ev. ev \<noteq> EvTry k) (map EvTry [0..<m]) = map EvTry [0..<m]"
      using takeWhile_tries[OF m, of "[]"] by simp
    ultimately show ?thesis using m by blast
  next
    case (Inr opt)
    with r1(2) have none: "opt = None" by (cases opt) auto
    with Inr r1(3) have mk: "m = k" by simp
    obtain r2 w2 where r2: "for_offsets h raw out (k # [Suc k..<?n]) ?w1 = (r2, w2)"
      by (cases "for_offsets h raw out (k # [Suc k..<?n]) ?w1")
    from Inr none r1(1) r2 have "for_offsets h raw out (offsets raw) ?w0 = (r2, w2)"
      by (simp add: split for_offsets_append tk)
    with tr have t2: "trace w' = trace w2" by simp
    from for_offsets_Cons_trace[OF r2] obtain more where
      "trace w2 = trace ?w1 @ EvTry k # more" by blast
    with t2 have "trace w' = trace w @ EvRead inp # (map EvTry [0..<m] @ EvTry k # more)" by simp
    moreover have "takeWhile (\<lambda>ev. ev \<noteq> EvTry k) (map EvTry [0..<m] @ EvTry k # more)
        = map EvTry [0..<m]"
      using takeWhile_tries[OF m, of "EvTry k # more"] by simp
    ultimately show ?thesis using m by blast
  qed
qed








section \<open>The claims\<close>

subsection \<open>C1: the first offset that loads\<close>

text \<open>
  C1 (as amended). Let the input file read as \<open>raw\<close> and let \<open>k\<close>, below
  \<open>min 32 (length raw)\<close>, be the smallest offset at which deserialization succeeds. Then in
  every run no write of the output is attempted for an offset less than \<open>k\<close>: what the run
  does before the iteration for \<open>k\<close> is iterations for smaller offsets, with no open and no
  write. If moreover deserialization raises a \<^verbatim>\<open>ValueError\<close>, \<^verbatim>\<open>EOFError\<close> or \<^verbatim>\<open>TypeError\<close> at
  every smaller offset, and opening the output file, serialising the object, writing it
  and printing the success line raise nothing, then the function returns 0, prints the
  success line with \<^verbatim>\<open>header_offset=k\<close> and nothing else, and leaves in the output file the
  serialisation of the object deserialized at \<open>k\<close>, after one open and one write.
\<close>

theorem extract_first_valid_offset:
  assumes "files w inp = Some raw" and "read_fault h inp = None"
    and "k < min 32 (length raw)"
    and "\<forall>j<k. \<exists>e. loads h (drop j raw) = Inl e"
    and "loads h (drop k raw) = Inr code"
    and "extract_code_object h inp out w = (status, w')"
  shows "(\<exists>evs m. trace w' = trace w @ EvRead inp # evs \<and> m \<le> k
            \<and> takeWhile (\<lambda>ev. ev \<noteq> EvTry k) evs = map EvTry [0..<m])
     \<and> ((\<forall>j<k. \<exists>e. loads h (drop j raw) = Inl e \<and> recoverable e)
          \<and> open_wb_fault h out = None \<and> dumps h code = Inr bs \<and> write_fault h out bs = None
          \<and> stdout_fault h = None \<longrightarrow>
        status = 0
        \<and> w' = w\<lparr>files := (files w)(out \<mapsto> bs),
                  stdout := stdout w @ [success_line k],
                  trace := trace w @ EvRead inp # map EvTry [0..<Suc k] @
                           [EvOpenW out, EvWrite out bs]\<rparr>)"
proof
  show "\<exists>evs m. trace w' = trace w @ EvRead inp # evs \<and> m \<le> k
            \<and> takeWhile (\<lambda>ev. ev \<noteq> EvTry k) evs = map EvTry [0..<m]"
    by (rule extract_no_write_below[OF assms(1-4) assms(6)])
next
  show "(\<forall>j<k. \<exists>e. loads h (drop j raw) = Inl e \<and> recoverable e)
          \<and> open_wb_fault h out = None \<and> dumps h code = Inr bs \<and> write_fault h out bs = None
          \<and> stdout_fault h = None \<longrightarrow>
        status = 0
        \<and> w' = w\<lparr>files := (files w)(out \<mapsto> bs),
                  stdout := stdout w @ [success_line k],
                  trace := trace w @ EvRead inp # map EvTry [0..<Suc k] @
                           [EvOpenW out, EvWrite out bs]\<rparr>"
  proof
    assume a: "(\<forall>j<k. \<exists>e. loads h (drop j raw) = Inl e \<and> recoverable e)
          \<and> open_wb_fault h out = None \<and> dumps h code = Inr bs \<and> write_fault h out bs = None
          \<and> stdout_fault h = None"
    have kle: "k \<le> min 32 (length raw)" using assms(3) by simp
    from a have low: "\<forall>j<k. \<exists>e. loads h (drop j raw) = Inl e \<and> recoverable e" by simp
    have "extract_code_object h inp out w =
      (0, w\<lparr>files := (files w)(out \<mapsto> bs),
                  stdout := stdout w @ [success_line k],
                  trace := trace w @ EvRead inp # map EvTry [0..<Suc k] @
                           [EvOpenW out, EvWrite out bs]\<rparr>)"
      using a assms(5)
      by (simp add: extract_skip[OF assms(1,2) kle low] upt_head[OF assms(3)] attempt_def
          write_output_def print_out_def log_def print_stdout_def after_loop_def handler_def)
    with assms(6) show "status = 0
        \<and> w' = w\<lparr>files := (files w)(out \<mapsto> bs),
                  stdout := stdout w @ [success_line k],
                  trace := trace w @ EvRead inp # map EvTry [0..<Suc k] @
                           [EvOpenW out, EvWrite out bs]\<rparr>"
      by simp
  qed
qed

theorem extract_first_valid_offset_witness:
  "extract_code_object sample_host ''in.pyc'' ''out.bin'' (sample_world sample_raw) = (0, sample_final)
   \<and> (\<exists>evs m. trace sample_final = trace (sample_world sample_raw) @ EvRead ''in.pyc'' # evs
         \<and> m \<le> 2 \<and> takeWhile (\<lambda>ev. ev \<noteq> EvTry 2) evs = map EvTry [0..<m])"
proof -
  let ?R = "extract_code_object sample_host ''in.pyc'' ''out.bin'' (sample_world sample_raw)"
  have 3: "2 < min 32 (length sample_raw)" by (simp add: sample_raw_def)
  have "\<exists>e. loads sample_host (drop 0 sample_raw) = Inl e \<and> recoverable e"
    and "\<exists>e. loads sample_host (drop (Suc 0) sample_raw) = Inl e \<and> recoverable e"
    by (simp_all add: sample_host_def sample_loads_def recoverable_def sample_raw_def)
  then have low: "\<forall>j<2. \<exists>e. loads sample_host (drop j sample_raw) = Inl e \<and> recoverable e"
    by (metis less_2_cases)
  then have 4: "\<forall>j<2. \<exists>e. loads sample_host (drop j sample_raw) = Inl e" by blast
  have 5: "loads sample_host (drop 2 sample_raw) = Inr PyTrue"
    by (simp add: sample_host_def sample_loads_def sample_raw_def)
  have 6: "?R = (fst ?R, snd ?R)" by simp
  have env: "open_wb_fault sample_host ''out.bin'' = None \<and> dumps sample_host PyTrue = Inr [0x54]
      \<and> write_fault sample_host ''out.bin'' [0x54] = None \<and> stdout_fault sample_host = None"
    by (simp add: sample_host_def sample_dumps_def)
  note inst = extract_first_valid_offset[OF sample_read 3 4 5 6, of "[0x54]"]
  from inst low env have res: "fst ?R = 0"
    "snd ?R = (sample_world sample_raw)\<lparr>files := (files (sample_world sample_raw))(''out.bin'' \<mapsto> [0x54]),
        stdout := stdout (sample_world sample_raw) @ [success_line 2],
        trace := trace (sample_world sample_raw) @ EvRead ''in.pyc'' # map EvTry [0..<Suc 2] @
                 [EvOpenW ''out.bin'', EvWrite ''out.bin'' [0x54]]\<rparr>"
    by blast+
  have fin: "snd ?R = sample_final"
    unfolding res(2)
    by (simp add: sample_world_def sample_final_def sample_raw_def success_line_def
        str_nat.simps upt_rec)
  have run: "?R = (0, sample_final)"
    using res(1) fin by (simp add: prod_eq_iff)
  from inst have "\<exists>evs m. trace (snd ?R) = trace (sample_world sample_raw) @ EvRead ''in.pyc'' # evs
         \<and> m \<le> 2 \<and> takeWhile (\<lambda>ev. ev \<noteq> EvTry 2) evs = map EvTry [0..<m]"
    by blast
  with run show ?thesis by (simp add: fin)
qed

text \<open>
  The claim without these conditions fails, once for each of them. A code object with
  \<^verbatim>\<open>None\<close> in its fields raises \<^verbatim>\<open>SystemError\<close> at offset 0, so the run returns 1 although
  offset 21 is the smallest that deserializes. With offset 0 deserializing: the output
  path cannot be opened, and the run returns 1; the serialisation raises \<^verbatim>\<open>ValueError\<close>,
  which is passed over, and the run reports offset 1; the disk is full, and the run returns
  1; standard output is closed, so the \<^verbatim>\<open>print\<close> after the write raises \<^verbatim>\<open>ValueError\<close>, which is
  passed over, and the run returns 1 and reports nothing.
\<close>

theorem first_valid_offset_counterexample:
  "list_all (\<lambda>j. isl (loads sample_host (drop j bad_code))) [0..<21]
   \<and> loads sample_host (drop 21 bad_code) = Inr PyNone
   \<and> fst (extract_code_object sample_host ''in.pyc'' ''out.bin'' (sample_world bad_code)) = 1
   \<and> loads readonly_host (drop 0 [0x4E]) = Inr PyNone
   \<and> fst (extract_code_object readonly_host ''in.pyc'' ''out.bin'' (sample_world [0x4E])) = 1
   \<and> loads strict_host (drop 0 [0x46, 0x54]) = Inr PyFalse
   \<and> stdout (snd (extract_code_object strict_host ''in.pyc'' ''out.bin'' (sample_world [0x46, 0x54])))
        = [''[+] Code object extracted (header_offset=1 bytes)'']
   \<and> loads full_disk_host (drop 0 [0x4E]) = Inr PyNone
   \<and> fst (extract_code_object full_disk_host ''in.pyc'' ''out.bin'' (sample_world [0x4E])) = 1
   \<and> loads closed_stdout_host (drop 0 [0x4E]) = Inr PyNone
   \<and> fst (extract_code_object closed_stdout_host ''in.pyc'' ''out.bin'' (sample_world [0x4E])) = 1
   \<and> stdout (snd (extract_code_object closed_stdout_host ''in.pyc'' ''out.bin'' (sample_world [0x4E])))
        = []"
proof -
  have a: "fst (extract_code_object sample_host ''in.pyc'' ''out.bin'' (sample_world bad_code)) = 1"
    unfolding extract_read_ok[OF sample_read]
    by (simp add: offsets_def length_bad_code upt_rec attempt_def log_def sample_host_def
        loads_bad_code recoverable_def code_error_def after_loop_def handler_def)
  have b: "list_all (\<lambda>j. isl (loads sample_host (drop j bad_code))) [0..<21]"
    "loads sample_host (drop 21 bad_code) = Inr PyNone"
    using bad_code_first_loads by (simp_all add: sample_host_def)
  have c: "loads readonly_host (drop 0 [0x4E]) = Inr PyNone
   \<and> fst (extract_code_object readonly_host ''in.pyc'' ''out.bin'' (sample_world [0x4E])) = 1
   \<and> loads strict_host (drop 0 [0x46, 0x54]) = Inr PyFalse
   \<and> stdout (snd (extract_code_object strict_host ''in.pyc'' ''out.bin'' (sample_world [0x46, 0x54])))
        = [''[+] Code object extracted (header_offset=1 bytes)'']
   \<and> loads full_disk_host (drop 0 [0x4E]) = Inr PyNone
   \<and> fst (extract_code_object full_disk_host ''in.pyc'' ''out.bin'' (sample_world [0x4E])) = 1
   \<and> loads closed_stdout_host (drop 0 [0x4E]) = Inr PyNone
   \<and> fst (extract_code_object closed_stdout_host ''in.pyc'' ''out.bin'' (sample_world [0x4E])) = 1
   \<and> stdout (snd (extract_code_object closed_stdout_host ''in.pyc'' ''out.bin'' (sample_world [0x4E])))
        = []"
    by (simp add: run_defs sample_defs upt_rec success_line_def str_nat.simps)
  from a b c show ?thesis by blast
qed

subsection \<open>C2: no offset loads\<close>

text \<open>
  C2 (as amended). If the input file reads as \<open>raw\<close> and deserialization succeeds at no
  offset below \<open>min 32 (length raw)\<close>, the function returns 1, prints one line to standard
  error (the exhaustion message, or the error line of an exception of another class) and
  nothing to standard output, and leaves every file as it was: the record of the run
  holds the read of the input and loop iterations only. When every offset raises a
  \<^verbatim>\<open>ValueError\<close>, \<^verbatim>\<open>EOFError\<close> or \<^verbatim>\<open>TypeError\<close>, all the offsets are tried and the line is the
  exhaustion message.
\<close>

theorem extract_no_valid_offset:
  assumes "files w inp = Some raw" and "read_fault h inp = None"
    and "\<forall>j<min 32 (length raw). \<exists>e. loads h (drop j raw) = Inl e"
  shows "(\<exists>m\<le>min 32 (length raw). \<exists>line.
            extract_code_object h inp out w =
              (1, w\<lparr>stderr := stderr w @ [line], trace := trace w @ EvRead inp # map EvTry [0..<m]\<rparr>)
            \<and> (line = exhaustion_line \<or> (\<exists>e. line = error_line e \<and> \<not> recoverable e)))
       \<and> ((\<forall>j<min 32 (length raw). \<exists>e. loads h (drop j raw) = Inl e \<and> recoverable e) \<longrightarrow>
            extract_code_object h inp out w =
              (1, w\<lparr>stderr := stderr w @ [exhaustion_line],
                     trace := trace w @ EvRead inp # map EvTry [0..<min 32 (length raw)]\<rparr>))"
proof
  let ?w0 = "w\<lparr>trace := trace w @ [EvRead inp]\<rparr>"
  from assms(3) have "\<forall>j\<in>set (offsets raw). \<exists>e. loads h (drop j raw) = Inl e"
    by (simp add: offsets_def)
  from for_offsets_no_success[OF this, of out ?w0] obtain m r where
    m: "m \<le> length (offsets raw)" and
    r: "for_offsets h raw out (offsets raw) ?w0 = (r, ?w0\<lparr>trace := trace ?w0 @ map EvTry (take m (offsets raw))\<rparr>)"
       "\<forall>s. r \<noteq> Inr (Some s)" "\<forall>e. r = Inl e \<longrightarrow> \<not> recoverable e"
    by blast
  have tk: "take m (offsets raw) = [0..<m]"
    using m by (simp add: offsets_def take_upt)
  have m': "m \<le> min 32 (length raw)" using m by (simp add: offsets_def)
  show "\<exists>m\<le>min 32 (length raw). \<exists>line.
            extract_code_object h inp out w =
              (1, w\<lparr>stderr := stderr w @ [line], trace := trace w @ EvRead inp # map EvTry [0..<m]\<rparr>)
            \<and> (line = exhaustion_line \<or> (\<exists>e. line = error_line e \<and> \<not> recoverable e))"
  proof (cases r)
    case (Inl e)
    with r(3) have "\<not> recoverable e" by simp
    with Inl show ?thesis
      using r(1,2) tk m'
      by (intro exI[of _ m] conjI exI[of _ "error_line e"])
         (auto simp: extract_read_ok[OF assms(1,2)] after_loop_def handler_def print_stderr_def)
  next
    case (Inr opt)
    with r(2) have "opt = None" by (cases opt) auto
    with Inr show ?thesis
      using r(1,2) tk m'
      by (intro exI[of _ m] conjI exI[of _ exhaustion_line])
         (simp_all add: extract_read_ok[OF assms(1,2)] after_loop_def handler_def print_stderr_def)
  qed
next
  show "(\<forall>j<min 32 (length raw). \<exists>e. loads h (drop j raw) = Inl e \<and> recoverable e) \<longrightarrow>
            extract_code_object h inp out w =
              (1, w\<lparr>stderr := stderr w @ [exhaustion_line],
                     trace := trace w @ EvRead inp # map EvTry [0..<min 32 (length raw)]\<rparr>)"
  proof
    assume a: "\<forall>j<min 32 (length raw). \<exists>e. loads h (drop j raw) = Inl e \<and> recoverable e"
    show "extract_code_object h inp out w =
              (1, w\<lparr>stderr := stderr w @ [exhaustion_line],
                     trace := trace w @ EvRead inp # map EvTry [0..<min 32 (length raw)]\<rparr>)"
      using extract_skip[OF assms(1,2) order_refl a, of out]
      by (simp add: after_loop_def handler_def print_stderr_def)
  qed
qed

theorem extract_no_valid_offset_witness:
  "extract_code_object sample_host ''in.pyc'' ''out.bin'' (sample_world [0, 0x30]) =
     (1, \<lparr>files = [''in.pyc'' \<mapsto> [0, 0x30]], stdout = [],
          stderr = [''[-] Failed to extract valid code object''],
          trace = [EvRead ''in.pyc'', EvTry 0, EvTry 1]\<rparr>)"
proof -
  let ?raw = "[0, 0x30] :: bytes"
  have 1: "files (sample_world ?raw) ''in.pyc'' = Some ?raw" by (simp add: sample_world_def)
  have 2: "read_fault sample_host ''in.pyc'' = None" by (simp add: sample_host_def)
  have "\<exists>e. loads sample_host (drop 0 ?raw) = Inl e \<and> recoverable e"
    and "\<exists>e. loads sample_host (drop (Suc 0) ?raw) = Inl e \<and> recoverable e"
    by (simp_all add: sample_host_def sample_loads_def recoverable_def)
  moreover have "min 32 (length ?raw) = 2" by simp
  ultimately have 4: "\<forall>j<min 32 (length ?raw). \<exists>e. loads sample_host (drop j ?raw) = Inl e \<and> recoverable e"
    by (metis less_2_cases)
  then have 3: "\<forall>j<min 32 (length ?raw). \<exists>e. loads sample_host (drop j ?raw) = Inl e"
    by blast
  show ?thesis
    using extract_no_valid_offset[OF 1 2 3, of "''out.bin''"] 4
    by (auto simp: sample_world_def exhaustion_line_def upt_rec)
qed

text \<open>
  The exhaustion message is not printed when an offset raises another exception. The
  input is eleven zero bytes and then a code object whose fields are \<^verbatim>\<open>None\<close>: no offset
  below 32 deserializes (the zero bytes are no type code; the objects of the code object
  start at offset 32), \<^verbatim>\<open>marshal.loads\<close> raises \<^verbatim>\<open>SystemError\<close> at offset 11 after eleven
  offsets were passed over, and the line on standard error is the error line.
\<close>

theorem no_valid_offset_counterexample:
  "list_all (\<lambda>j. isl (loads sample_host (drop j padded_code))) [0..<min 32 (length padded_code)]
   \<and> fst (extract_code_object sample_host ''in.pyc'' ''out.bin'' (sample_world padded_code)) = 1
   \<and> stderr (snd (extract_code_object sample_host ''in.pyc'' ''out.bin'' (sample_world padded_code)))
       = [''[-] Error: Objects/codeobject.c:250: bad argument to internal function'']
   \<and> tried (trace (snd (extract_code_object sample_host ''in.pyc'' ''out.bin''
         (sample_world padded_code)))) = [0..<12]
   \<and> ''[-] Error: Objects/codeobject.c:250: bad argument to internal function'' \<noteq> exhaustion_line"
proof -
  have 1: "list_all (\<lambda>j. isl (loads sample_host (drop j padded_code))) [0..<min 32 (length padded_code)]"
    using padded_code_never_loads by (simp add: length_padded_code sample_host_def)
  have low: "\<forall>j<11. \<exists>e. loads sample_host (drop j padded_code) = Inl e \<and> recoverable e"
    using all_below_recoverable[OF padded_code_low] by (simp add: sample_host_def)
  have 2: "extract_code_object sample_host ''in.pyc'' ''out.bin'' (sample_world padded_code) =
      (1, (sample_world padded_code)\<lparr>stderr := [error_line code_error],
             trace := EvRead ''in.pyc'' # map EvTry [0..<12]\<rparr>)"
    using extract_skip[OF sample_read, of 11 padded_code "''out.bin''"] low loads_padded_code_11
    by (simp add: length_padded_code upt_rec attempt_def log_def sample_host_def recoverable_def
        code_error_def after_loop_def handler_def print_stderr_def sample_world_def)
  show ?thesis
    using 1 by (simp add: 2 error_line_def code_error_def exhaustion_line_def tried_map_EvTry)
qed

subsection \<open>C3: which exceptions are passed over\<close>

text \<open>
  C3. Let the input file read as \<open>raw\<close>, let deserialization raise one of the three
  classes at every offset below \<open>k\<close>, and let the iteration for offset \<open>k\<close> raise \<open>e\<close>
  (from \<^verbatim>\<open>marshal.loads\<close>, from opening the output file or from \<^verbatim>\<open>marshal.dump\<close>). If the
  class of \<open>e\<close> is \<^verbatim>\<open>ValueError\<close>, \<^verbatim>\<open>EOFError\<close> or \<^verbatim>\<open>TypeError\<close>, nothing is printed and the
  scan goes on with the offsets from \<open>k + 1\<close>. If it is any other class, the scan stops: the
  function returns 1 and prints the one line \<^verbatim>\<open>[-] Error: <message>\<close> to standard error,
  which differs from the exhaustion message. If the input path does not exist, the function
  returns 1 and the line carries the message of the failed \<^verbatim>\<open>open\<close>.
\<close>

theorem extract_error_policy:
  "(files w inp = Some raw \<and> read_fault h inp = None \<and> k < min 32 (length raw)
      \<and> (\<forall>j<k. \<exists>e'. loads h (drop j raw) = Inl e' \<and> exn_cls e' \<in> {ValueError, EOFError, TypeError})
      \<and> attempt h raw out k (w\<lparr>trace := trace w @ EvRead inp # map EvTry [0..<k]\<rparr>) = (Inl e, w')
    \<longrightarrow> (exn_cls e \<in> {ValueError, EOFError, TypeError} \<longrightarrow>
            extract_code_object h inp out w =
              handler (after_loop (for_offsets h raw out [Suc k..<min 32 (length raw)] w'))
            \<and> stdout w' = stdout w \<and> stderr w' = stderr w)
      \<and> (exn_cls e \<notin> {ValueError, EOFError, TypeError} \<longrightarrow>
            extract_code_object h inp out w = (1, w'\<lparr>stderr := stderr w @ [error_line e]\<rparr>)
            \<and> stdout w' = stdout w
            \<and> error_line e = ''[-] Error: '' @ exn_msg e
            \<and> error_line e \<noteq> exhaustion_line))
   \<and> (files w inp = None \<longrightarrow>
         extract_code_object h inp out w =
           (1, w\<lparr>stderr := stderr w @ [''[-] Error: '' @ enoent_msg inp],
                 trace := trace w @ [EvRead inp]\<rparr>))"
proof -
  have missing: "extract_code_object h inp out w =
           (1, w\<lparr>stderr := stderr w @ [''[-] Error: '' @ enoent_msg inp],
                 trace := trace w @ [EvRead inp]\<rparr>)"
    if "files w inp = None"
    using that
    by (simp add: extract_code_object_def read_binary_def handler_def error_line_def
        print_stderr_def log_def)
  have scan: "(exn_cls e \<in> {ValueError, EOFError, TypeError} \<longrightarrow>
            extract_code_object h inp out w =
              handler (after_loop (for_offsets h raw out [Suc k..<min 32 (length raw)] w'))
            \<and> stdout w' = stdout w \<and> stderr w' = stderr w)
      \<and> (exn_cls e \<notin> {ValueError, EOFError, TypeError} \<longrightarrow>
            extract_code_object h inp out w = (1, w'\<lparr>stderr := stderr w @ [error_line e]\<rparr>)
            \<and> stdout w' = stdout w
            \<and> error_line e = ''[-] Error: '' @ exn_msg e
            \<and> error_line e \<noteq> exhaustion_line)"
    if rd: "files w inp = Some raw" "read_fault h inp = None"
      and k: "k < min 32 (length raw)"
      and low: "\<forall>j<k. \<exists>e'. loads h (drop j raw) = Inl e' \<and> exn_cls e' \<in> {ValueError, EOFError, TypeError}"
      and atk: "attempt h raw out k (w\<lparr>trace := trace w @ EvRead inp # map EvTry [0..<k]\<rparr>) = (Inl e, w')"
  proof -
    from low have below: "\<forall>j<k. \<exists>e'. loads h (drop j raw) = Inl e' \<and> recoverable e'"
      by (simp add: recoverable_def)
    have kle: "k \<le> min 32 (length raw)" using k by simp
    note start = extract_skip[OF rd kle below, of out, unfolded upt_head[OF k]]
    note quiet = attempt_raise_prints_nothing[OF atk]
    have cls: "recoverable e \<longleftrightarrow> exn_cls e \<in> {ValueError, EOFError, TypeError}"
      by (simp add: recoverable_def)
    show ?thesis
      using start atk quiet error_line_not_exhaustion[of e] cls
      by (simp add: after_loop_def handler_def print_stderr_def error_line_def)
  qed
  show ?thesis
    using missing scan by blast
qed

theorem extract_error_policy_witness:
  "extract_code_object sample_host ''in.pyc'' ''out.bin'' (sample_world (0 # bad_code)) =
     (1, \<lparr>files = [''in.pyc'' \<mapsto> 0 # bad_code], stdout = [],
          stderr = [''[-] Error: Objects/codeobject.c:250: bad argument to internal function''],
          trace = [EvRead ''in.pyc'', EvTry 0, EvTry 1]\<rparr>)
   \<and> extract_code_object sample_host ''in.pyc'' ''out.bin'' (sample_world [0, 0x30, 0x4E]) =
       handler (after_loop (for_offsets sample_host [0, 0x30, 0x4E] ''out.bin'' [2..<3]
         \<lparr>files = [''in.pyc'' \<mapsto> [0, 0x30, 0x4E]], stdout = [], stderr = [],
           trace = [EvRead ''in.pyc'', EvTry 0, EvTry 1]\<rparr>))
   \<and> extract_code_object sample_host ''missing.pyc'' ''out.bin'' (sample_world []) =
       (1, \<lparr>files = [''in.pyc'' \<mapsto> []], stdout = [],
            stderr = [''[-] Error: '' @ enoent_msg ''missing.pyc''],
            trace = [EvRead ''missing.pyc'']\<rparr>)"
proof -
  let ?fatal = "0 # bad_code"
  let ?skip = "[0, 0x30, 0x4E] :: bytes"
  let ?wf = "\<lparr>files = [''in.pyc'' \<mapsto> ?fatal], stdout = [], stderr = [],
           trace = [EvRead ''in.pyc'', EvTry 0, EvTry 1]\<rparr>"
  let ?ws = "\<lparr>files = [''in.pyc'' \<mapsto> ?skip], stdout = [], stderr = [],
           trace = [EvRead ''in.pyc'', EvTry 0, EvTry 1]\<rparr>"
  have low: "\<forall>j<1. \<exists>e'. loads sample_host (drop j (0 # bs)) = Inl e'
      \<and> exn_cls e' \<in> {ValueError, EOFError, TypeError}" for bs
    by (simp add: sample_host_def sample_loads_def)
  have af: "attempt sample_host ?fatal ''out.bin'' 1
           ((sample_world ?fatal)\<lparr>trace := trace (sample_world ?fatal) @ EvRead ''in.pyc'' # map EvTry [0..<1]\<rparr>)
          = (Inl code_error, ?wf)"
    by (simp add: attempt_def log_def sample_host_def sample_world_def loads_bad_code)
  have hf: "files (sample_world ?fatal) ''in.pyc'' = Some ?fatal
      \<and> read_fault sample_host ''in.pyc'' = None \<and> 1 < min 32 (length ?fatal)
      \<and> (\<forall>j<1. \<exists>e'. loads sample_host (drop j ?fatal) = Inl e'
            \<and> exn_cls e' \<in> {ValueError, EOFError, TypeError})
      \<and> attempt sample_host ?fatal ''out.bin'' 1
           ((sample_world ?fatal)\<lparr>trace := trace (sample_world ?fatal) @ EvRead ''in.pyc'' # map EvTry [0..<1]\<rparr>)
          = (Inl code_error, ?wf)"
    using low[of bad_code] af sample_read(1)[of ?fatal] sample_read(2) by (simp add: length_bad_code)
  have hs: "files (sample_world ?skip) ''in.pyc'' = Some ?skip
      \<and> read_fault sample_host ''in.pyc'' = None \<and> 1 < min 32 (length ?skip)
      \<and> (\<forall>j<1. \<exists>e'. loads sample_host (drop j ?skip) = Inl e'
            \<and> exn_cls e' \<in> {ValueError, EOFError, TypeError})
      \<and> attempt sample_host ?skip ''out.bin'' 1
           ((sample_world ?skip)\<lparr>trace := trace (sample_world ?skip) @ EvRead ''in.pyc'' # map EvTry [0..<1]\<rparr>)
          = (Inl (Exn TypeError ''NULL object in marshal data for object''), ?ws)"
    using low by (simp add: sample_read attempt_def log_def sample_host_def sample_loads_def
        sample_world_def)
  have hm: "files (sample_world []) ''missing.pyc'' = None" by (simp add: sample_world_def)
  have cls: "exn_cls code_error \<notin> {ValueError, EOFError, TypeError}"
    by (simp add: code_error_def)
  from extract_error_policy[of "sample_world ?fatal" "''in.pyc''" ?fatal sample_host 1 "''out.bin''"
      code_error ?wf] hf cls
  have 1: "extract_code_object sample_host ''in.pyc'' ''out.bin'' (sample_world ?fatal) =
      (1, ?wf\<lparr>stderr := stderr (sample_world ?fatal) @ [error_line code_error]\<rparr>)"
    by blast
  from extract_error_policy[of "sample_world ?skip" "''in.pyc''" ?skip sample_host 1 "''out.bin''"
      "Exn TypeError ''NULL object in marshal data for object''" ?ws] hs
  have 2: "extract_code_object sample_host ''in.pyc'' ''out.bin'' (sample_world ?skip) =
      handler (after_loop (for_offsets sample_host ?skip ''out.bin'' [Suc 1..<min 32 (length ?skip)] ?ws))"
    by simp
  from extract_error_policy[of "sample_world []" "''missing.pyc''" _ sample_host _ "''out.bin''"] hm
  have 3: "extract_code_object sample_host ''missing.pyc'' ''out.bin'' (sample_world []) =
      (1, (sample_world [])\<lparr>stderr := stderr (sample_world []) @ [''[-] Error: '' @ enoent_msg ''missing.pyc''],
            trace := trace (sample_world []) @ [EvRead ''missing.pyc'']\<rparr>)"
    by blast
  have n: "[Suc 1..<min 32 (length ?skip)] = [2..<3]" by simp
  show ?thesis
    unfolding 1 2 3 n by (simp add: sample_world_def error_line_def code_error_def)
qed

subsection \<open>C4: the round trip through the output file\<close>

text \<open>
  C4. If the function returns 0, then it reported an offset \<open>k\<close> below
  \<open>min 32 (length raw)\<close> at which \<open>raw\<close> deserializes to an object, the output file exists,
  and deserializing its bytes gives that same object, for a runtime whose \<^verbatim>\<open>marshal\<close>
  loads back what it dumped.
\<close>

theorem output_round_trip:
  assumes "extract_code_object h inp out w = (0, w')"
    and "marshal_roundtrip h"
  shows "\<exists>raw k code bs. files w inp = Some raw \<and> k < min 32 (length raw)
     \<and> stdout w' = stdout w @ [success_line k]
     \<and> loads h (drop k raw) = Inr code
     \<and> files w' out = Some bs
     \<and> loads h bs = Inr code"
proof -
  from extract_status_0[OF assms(1)] obtain raw where
    rd: "files w inp = Some raw" and
    lp: "for_offsets h raw out (offsets raw) (w\<lparr>trace := trace w @ [EvRead inp]\<rparr>) = (Inr (Some 0), w')"
    by blast
  from for_offsets_success[OF lp] obtain k code bs where
    k: "k \<in> set (offsets raw)" "loads h (drop k raw) = Inr code" "dumps h code = Inr bs"
       "files w' out = Some bs" "stdout w' = stdout w @ [success_line k]"
    by auto
  from assms(2) k(3) have "loads h bs = Inr code" by (simp add: marshal_roundtrip_def)
  with rd k show ?thesis by (auto simp: offsets_def)
qed

theorem output_round_trip_witness:
  "extract_code_object sample_host ''in.pyc'' ''out.bin'' (sample_world sample_raw) = (0, sample_final)
   \<and> marshal_roundtrip sample_host
   \<and> (\<exists>raw k code bs.
         files (sample_world sample_raw) ''in.pyc'' = Some raw \<and> k < min 32 (length raw)
       \<and> stdout sample_final = stdout (sample_world sample_raw) @ [success_line k]
       \<and> loads sample_host (drop k raw) = Inr code
       \<and> files sample_final ''out.bin'' = Some bs
       \<and> loads sample_host bs = Inr code)"
  using output_round_trip[OF sample_run sample_roundtrip] sample_run sample_roundtrip
  by blast

subsection \<open>C5: inputs shorter than 32 bytes\<close>

text \<open>
  C5. For an input of fewer than 32 bytes the loop ranges over exactly the offsets 0 to
  \<open>length raw - 1\<close>; each of them is inside the bytes, so every slice \<^verbatim>\<open>raw[offset:]\<close> is a
  non-empty suffix of \<open>raw\<close>; the offsets a run tries are these, in order, up to the one
  that ends the scan, and all of them when the run ends with the exhaustion message.
\<close>

theorem short_input_bound:
  assumes "files w inp = Some raw" and "read_fault h inp = None"
    and "length raw < 32"
    and "extract_code_object h inp out w = (status, w')"
  shows "offsets raw = [0..<length raw]
     \<and> (\<forall>j\<in>set (offsets raw). j < length raw \<and> drop j raw \<noteq> [])
     \<and> (\<exists>evs m. trace w' = trace w @ EvRead inp # evs \<and> tried evs = [0..<m] \<and> m \<le> length raw
           \<and> (stderr w' = stderr w @ [exhaustion_line] \<longrightarrow> m = length raw))"
proof -
  let ?w0 = "w\<lparr>trace := trace w @ [EvRead inp]\<rparr>"
  have off: "offsets raw = [0..<length raw]" using assms(3) by (simp add: offsets_def)
  obtain r wl where lp: "for_offsets h raw out (offsets raw) ?w0 = (r, wl)"
    by (cases "for_offsets h raw out (offsets raw) ?w0")
  from for_offsets_shape[OF lp] obtain evs m where sh:
    "trace wl = trace ?w0 @ evs" "m \<le> length (offsets raw)" "tried evs = take m (offsets raw)"
    "stderr wl = stderr ?w0"
    "case r of
         Inr (Some s) \<Rightarrow> s = 0 \<and> stdout_fault h = None
                   \<and> (\<exists>k\<in>set (offsets raw). stdout wl = stdout ?w0 @ [success_line k])
       | Inr None \<Rightarrow> m = length (offsets raw) \<and> stdout wl = stdout ?w0
       | Inl e \<Rightarrow> stdout wl = stdout ?w0"
    by blast
  have tr: "tried evs = [0..<m]" using sh(2,3) by (simp add: take_offsets)
  have m: "m \<le> length raw" using sh(2) off by simp
  from assms have fin: "handler (after_loop (r, wl)) = (status, w')"
    by (simp add: extract_read_ok lp)
  have "trace w' = trace w @ EvRead inp # evs
      \<and> (stderr w' = stderr w @ [exhaustion_line] \<longrightarrow> m = length raw)"
    using fin sh off error_line_not_exhaustion
    by (auto simp: after_loop_def handler_def print_stderr_def split: sum.splits option.splits)
  with tr m off show ?thesis by auto
qed

theorem short_input_bound_witness:
  "length short_raw < 32
   \<and> extract_code_object sample_host ''in.pyc'' ''out.bin'' (sample_world short_raw) = (1, short_final)
   \<and> offsets short_raw = [0..<length short_raw]
   \<and> (\<exists>evs. trace short_final = trace (sample_world short_raw) @ EvRead ''in.pyc'' # evs
         \<and> tried evs = [0..<length short_raw])"
proof -
  have 3: "length short_raw < 32" by (simp add: short_raw_def)
  have 4: "stderr short_final = stderr (sample_world short_raw) @ [exhaustion_line]"
    by (simp add: short_final_def sample_world_def exhaustion_line_def)
  from short_input_bound[OF sample_read 3 short_run] 4 obtain evs where
    "offsets short_raw = [0..<length short_raw]"
    "trace short_final = trace (sample_world short_raw) @ EvRead ''in.pyc'' # evs"
    "tried evs = [0..<length short_raw]"
    by blast
  with 3 short_run show ?thesis by blast
qed

subsection \<open>C6: what holds of every run\<close>




subsection \<open>C7: the argument count\<close>

text \<open>
  C7. When \<^verbatim>\<open>sys.argv\<close> does not have exactly three entries, the program exits with status
  1 after printing the usage line to standard error; no file is read, opened or written.
\<close>

theorem main_wrong_argument_count:
  assumes "length argv \<noteq> 3"
  shows "main_prog h argv w =
           (1, w\<lparr>stderr := stderr w @ [''Usage: marshal_extract.py <input.pyc> <output.marshaled>'']\<rparr>)
         \<and> files (snd (main_prog h argv w)) = files w
         \<and> trace (snd (main_prog h argv w)) = trace w"
  using assms by (simp add: main_prog_def print_stderr_def usage_line_def)

theorem main_wrong_argument_count_witness:
  "length [''marshal_extract.py'', ''in.pyc''] \<noteq> 3
   \<and> main_prog sample_host [''marshal_extract.py'', ''in.pyc''] (sample_world [0x4E]) =
       (1, \<lparr>files = [''in.pyc'' \<mapsto> [0x4E]], stdout = [],
            stderr = [''Usage: marshal_extract.py <input.pyc> <output.marshaled>''],
            trace = []\<rparr>)"
  using main_wrong_argument_count[of "[''marshal_extract.py'', ''in.pyc'']" sample_host
      "sample_world [0x4E]"]
  by (simp add: sample_world_def)

subsection \<open>C8: a recoverable exception while writing\<close>

text \<open>
  C8. If deserialization succeeds at offset \<open>k\<close> (and raised one of the three classes at
  the offsets below) but opening the output file or serialising the object raises a
  \<^verbatim>\<open>ValueError\<close>, \<^verbatim>\<open>EOFError\<close> or \<^verbatim>\<open>TypeError\<close>, the scan goes on with offset \<open>k + 1\<close>; when
  the file had been opened it now exists and is empty. In particular, if no later offset
  deserializes, the run reports exhaustion and leaves the output file created or
  truncated.
\<close>

theorem write_failure_continues:
  assumes "files w inp = Some raw" and "read_fault h inp = None"
    and "k < min 32 (length raw)"
    and "\<forall>j<k. \<exists>e'. loads h (drop j raw) = Inl e' \<and> recoverable e'"
    and "loads h (drop k raw) = Inr code"
    and "open_wb_fault h out = Some e \<or> (open_wb_fault h out = None \<and> dumps h code = Inl e)"
    and "exn_cls e \<in> {ValueError, EOFError, TypeError}"
  shows "extract_code_object h inp out w =
       handler (after_loop (for_offsets h raw out [Suc k..<min 32 (length raw)]
         (w\<lparr>files := (if open_wb_fault h out = None then (files w)(out \<mapsto> []) else files w),
             trace := trace w @ EvRead inp # map EvTry [0..<Suc k] @ [EvOpenW out]\<rparr>)))
     \<and> (open_wb_fault h out = None
          \<and> (\<forall>j. k < j \<and> j < min 32 (length raw) \<longrightarrow>
                (\<exists>e'. loads h (drop j raw) = Inl e' \<and> recoverable e')) \<longrightarrow>
         extract_code_object h inp out w =
           (1, w\<lparr>files := (files w)(out \<mapsto> []),
                 stderr := stderr w @ [exhaustion_line],
                 trace := trace w @ EvRead inp # map EvTry [0..<Suc k] @ EvOpenW out #
                          map EvTry [Suc k..<min 32 (length raw)]\<rparr>))"
proof -
  let ?n = "min 32 (length raw)"
  let ?wk = "w\<lparr>files := (if open_wb_fault h out = None then (files w)(out \<mapsto> []) else files w),
             trace := trace w @ EvRead inp # map EvTry [0..<Suc k] @ [EvOpenW out]\<rparr>"
  have kle: "k \<le> ?n" using assms(3) by simp
  have rec: "recoverable e" using assms(7) by (simp add: recoverable_def)
  have "attempt h raw out k (w\<lparr>trace := trace w @ EvRead inp # map EvTry [0..<k]\<rparr>) = (Inl e, ?wk)"
    using assms(5,6) by (auto simp: attempt_def write_output_def log_def)
  then have first: "extract_code_object h inp out w =
       handler (after_loop (for_offsets h raw out [Suc k..<?n] ?wk))"
    using rec by (simp add: extract_skip[OF assms(1,2) kle assms(4)] upt_head[OF assms(3)])
  have second: "extract_code_object h inp out w =
           (1, w\<lparr>files := (files w)(out \<mapsto> []),
                 stderr := stderr w @ [exhaustion_line],
                 trace := trace w @ EvRead inp # map EvTry [0..<Suc k] @ EvOpenW out #
                          map EvTry [Suc k..<?n]\<rparr>)"
    if op: "open_wb_fault h out = None"
      and rest: "\<forall>j. k < j \<and> j < ?n \<longrightarrow> (\<exists>e'. loads h (drop j raw) = Inl e' \<and> recoverable e')"
  proof -
    from rest have "\<forall>j\<in>set [Suc k..<?n]. \<exists>e'. loads h (drop j raw) = Inl e' \<and> recoverable e'"
      by auto
    from for_offsets_skip[OF this, of out "[]" ?wk] show ?thesis
      using op by (simp add: first after_loop_def handler_def print_stderr_def)
  qed
  from first second show ?thesis by blast
qed

theorem write_failure_continues_witness:
  "extract_code_object strict_host ''in.pyc'' ''out.bin'' (sample_world [0x46]) =
     (1, \<lparr>files = [''in.pyc'' \<mapsto> [0x46], ''out.bin'' \<mapsto> []], stdout = [],
          stderr = [''[-] Failed to extract valid code object''],
          trace = [EvRead ''in.pyc'', EvTry 0, EvOpenW ''out.bin'']\<rparr>)
   \<and> extract_code_object strict_host ''in.pyc'' ''out.bin'' (sample_world [0x46, 0x54]) =
     (0, \<lparr>files = [''in.pyc'' \<mapsto> [0x46, 0x54], ''out.bin'' \<mapsto> [0x54]],
          stdout = [''[+] Code object extracted (header_offset=1 bytes)''],
          stderr = [],
          trace = [EvRead ''in.pyc'', EvTry 0, EvOpenW ''out.bin'', EvTry 1, EvOpenW ''out.bin'',
                   EvWrite ''out.bin'' [0x54]]\<rparr>)"
proof -
  let ?e = "Exn ValueError ''unmarshallable object''"
  have rf: "read_fault strict_host ''in.pyc'' = None"
    by (simp add: strict_host_def sample_host_def)
  have k1: "0 < min 32 (length [0x46 :: byte])" and k2: "0 < min 32 (length [0x46, 0x54 :: byte])"
    by simp_all
  have low: "\<forall>j<0. \<exists>e'. loads strict_host (drop j raw) = Inl e' \<and> recoverable e'" for raw
    by simp
  have ld: "loads strict_host (drop 0 (0x46 # bs)) = Inr PyFalse" for bs
    by (simp add: strict_host_def sample_host_def sample_loads_def)
  have flt: "open_wb_fault strict_host ''out.bin'' = Some ?e
      \<or> (open_wb_fault strict_host ''out.bin'' = None \<and> dumps strict_host PyFalse = Inl ?e)"
    by (simp add: strict_host_def sample_host_def)
  have cls: "exn_cls ?e \<in> {ValueError, EOFError, TypeError}" by simp
  have op: "open_wb_fault strict_host ''out.bin'' = None"
    by (simp add: strict_host_def sample_host_def)
  have rest: "\<forall>j. 0 < j \<and> j < min 32 (length [0x46 :: byte]) \<longrightarrow>
      (\<exists>e'. loads strict_host (drop j [0x46]) = Inl e' \<and> recoverable e')"
    by simp
  from write_failure_continues[OF sample_read(1) rf k1 low ld flt cls]
  have 1: "extract_code_object strict_host ''in.pyc'' ''out.bin'' (sample_world [0x46]) =
           (1, (sample_world [0x46])\<lparr>files := (files (sample_world [0x46]))(''out.bin'' \<mapsto> []),
                 stderr := stderr (sample_world [0x46]) @ [exhaustion_line],
                 trace := trace (sample_world [0x46]) @ EvRead ''in.pyc'' # map EvTry [0..<Suc 0] @
                          EvOpenW ''out.bin'' # map EvTry [Suc 0..<min 32 (length [0x46 :: byte])]\<rparr>)"
    using op rest by blast
  from write_failure_continues[OF sample_read(1) rf k2 low ld flt cls]
  have 2: "extract_code_object strict_host ''in.pyc'' ''out.bin'' (sample_world [0x46, 0x54]) =
       handler (after_loop (for_offsets strict_host [0x46, 0x54] ''out.bin''
          [Suc 0..<min 32 (length [0x46, 0x54 :: byte])]
         ((sample_world [0x46, 0x54])\<lparr>files := (if open_wb_fault strict_host ''out.bin'' = None
               then (files (sample_world [0x46, 0x54]))(''out.bin'' \<mapsto> [])
               else files (sample_world [0x46, 0x54])),
             trace := trace (sample_world [0x46, 0x54]) @ EvRead ''in.pyc'' # map EvTry [0..<Suc 0] @
               [EvOpenW ''out.bin'']\<rparr>)))"
    by blast
  show ?thesis
    unfolding 1 2
    by (simp add: sample_world_def exhaustion_line_def op upt_rec attempt_def write_output_def
        print_out_def log_def print_stdout_def after_loop_def handler_def success_line_def
        str_nat.simps strict_host_def sample_host_def sample_loads_def sample_dumps_def)
qed

subsection \<open>C9: the empty input\<close>

text \<open>
  C9. For an input file of zero bytes the loop has no offset to try: the function returns
  1, prints the exhaustion message to standard error, and does nothing else; the output
  path is not touched.
\<close>

theorem extract_empty_input:
  assumes "files w inp = Some []" and "read_fault h inp = None"
  shows "extract_code_object h inp out w =
           (1, w\<lparr>stderr := stderr w @ [''[-] Failed to extract valid code object''],
                 trace := trace w @ [EvRead inp]\<rparr>)
         \<and> offsets [] = []"
  using assms
  by (simp add: extract_read_ok offsets_def after_loop_def handler_def print_stderr_def
      exhaustion_line_def)

theorem extract_empty_input_witness:
  "files (sample_world []) ''in.pyc'' = Some [] \<and> read_fault sample_host ''in.pyc'' = None
   \<and> extract_code_object sample_host ''in.pyc'' ''out.bin'' (sample_world []) =
       (1, \<lparr>files = [''in.pyc'' \<mapsto> []], stdout = [],
            stderr = [''[-] Failed to extract valid code object''],
            trace = [EvRead ''in.pyc'']\<rparr>)"
  using extract_empty_input[OF sample_read, of "''out.bin''"] sample_read
  by (simp add: sample_world_def)

subsection \<open>C10: determinism\<close>




end
